theory Spec2Isabelle
  imports Complex_Main
begin

section \<open>Python values, exceptions and the library interface\<close>

text \<open>
  The monitor works on values decoded from JSON. They are modelled by \<open>pyval\<close>:
  \<open>None\<close>, booleans, unbounded integers, floats, strings, lists and dictionaries
  (association lists with distinct keys, looked up with \<open>map_of\<close>). A finite float is
  modelled by the rational number it denotes, so the comparisons against the constants
  of the source (\<open>0\<close>, \<open>0.5\<close>, \<open>2\<close>, \<open>3\<close>, \<open>10\<close>, \<open>100\<close>, \<open>500\<close>) are exact. The
  rounding of float multiplication, subtraction and division, the overflow of \<open>float\<close>
  on a huge integer and the non-finite floats are not modelled.
  Strings are byte strings in UTF-8; the symbols of the source that lie outside ASCII
  are written as their UTF-8 bytes.
\<close>

datatype pyval =
    PNone
  | PBool bool
  | PInt int
  | PFloat rat
  | PStr string
  | PList "pyval list"
  | PDict "(string \<times> pyval) list"

text \<open>
  A raised exception is a value: its class, the operation that raised it and the
  operand it was applied to.
\<close>

datatype exc_class = AttributeError | TypeError | ValueError | IndexError | KeyError | HTTPError

datatype error = Raise exc_class string pyval

text \<open>
  A \<open>datetime\<close> is either naive (no offset) or aware. An aware value is kept as its
  instant, in microseconds since the epoch in UTC; a naive one as the microseconds its
  fields count. The range of years that \<open>datetime\<close> can hold is not modelled.
\<close>

datatype datetime = Naive int | Aware int

text \<open>
  Functions of the Python library and of the interpreter that the monitor calls and
  that are not part of the repository are parameters of the model:
  \<open>datetime.fromisoformat\<close>, \<open>float\<close> on a string, \<open>float.__format__\<close> for a format
  specification, \<open>str\<close> of a value that is not a string, \<open>str\<close> of an exception, and
  the HTTP POST of the dispatcher (\<open>None\<close> when the request succeeded).
\<close>

record pylib =
  fromisoformat :: "string \<Rightarrow> datetime option"
  float_of_str :: "string \<Rightarrow> rat option"
  format_float :: "string \<Rightarrow> rat \<Rightarrow> string"
  str_of_val :: "pyval \<Rightarrow> string"
  exc_message :: "error \<Rightarrow> string"
  http_post :: "string \<Rightarrow> string \<Rightarrow> error option"

definition bind :: "error + 'a \<Rightarrow> ('a \<Rightarrow> error + 'b) \<Rightarrow> error + 'b" where
  "bind m f = (case m of Inl e \<Rightarrow> Inl e | Inr v \<Rightarrow> f v)"

fun truthy :: "pyval \<Rightarrow> bool" where
  "truthy PNone = False"
| "truthy (PBool b) = b"
| "truthy (PInt i) = (i \<noteq> 0)"
| "truthy (PFloat r) = (r \<noteq> 0)"
| "truthy (PStr s) = (s \<noteq> [])"
| "truthy (PList xs) = (xs \<noteq> [])"
| "truthy (PDict kvs) = (kvs \<noteq> [])"

text \<open>\<open>d.get(k, default)\<close>: only a dictionary has the method.\<close>

fun py_get :: "pyval \<Rightarrow> string \<Rightarrow> pyval \<Rightarrow> error + pyval" where
  "py_get (PDict kvs) k d = Inr (case map_of kvs k of None \<Rightarrow> d | Some v \<Rightarrow> v)"
| "py_get v k d = Inl (Raise AttributeError ''get'' v)"

text \<open>\<open>s.replace('Z', '+00:00')\<close>: only a string has the method.\<close>

definition replace_Z :: "string \<Rightarrow> string" where
  "replace_Z s = concat (map (\<lambda>c. if c = CHR ''Z'' then ''+00:00'' else [c]) s)"

fun py_replace_Z :: "pyval \<Rightarrow> error + string" where
  "py_replace_Z (PStr s) = Inr (replace_Z s)"
| "py_replace_Z v = Inl (Raise AttributeError ''replace'' v)"

definition py_fromisoformat :: "pylib \<Rightarrow> string \<Rightarrow> error + datetime" where
  "py_fromisoformat lib s =
     (case fromisoformat lib s of
        None \<Rightarrow> Inl (Raise ValueError ''fromisoformat'' (PStr s))
      | Some d \<Rightarrow> Inr d)"

section \<open>Symbols outside ASCII\<close>

definition warning_sign :: string where
  "warning_sign = [CHR 0xE2, CHR 0x9A, CHR 0xA0, CHR 0xEF, CHR 0xB8, CHR 0x8F]"

section \<open>Window classifier\<close>

definition minutes :: "int \<Rightarrow> int" where
  "minutes n = n * 60000000"

text \<open>\<open>delta.total_seconds() / 60\<close> for a difference \<open>delta\<close> in microseconds.\<close>

definition total_minutes :: "int \<Rightarrow> rat" where
  "total_minutes delta = of_int delta / 1000000 / 60"

type_synonym timing = "bool \<times> int option \<times> rat option"

text \<open>
  The \<open>try\<close> block of \<open>analyze_market_timing\<close>. \<open>now\<close> is the reading of
  \<open>datetime.now(timezone.utc)\<close>. Comparing the aware \<open>now\<close> with a naive start time
  raises \<open>TypeError\<close>. The start time in WIB is the same instant as the start time in
  UTC, so the result carries the instant.
\<close>

definition analyze_market_timing_body :: "pylib \<Rightarrow> int \<Rightarrow> pyval \<Rightarrow> error + timing" where
  "analyze_market_timing_body lib now_utc market =
     bind (py_get market ''end_date_iso'' PNone) (\<lambda>end_time_str.
       if \<not> truthy end_time_str then Inr (False, None, None)
       else
         bind (py_replace_Z end_time_str) (\<lambda>iso_str.
         bind (py_fromisoformat lib iso_str) (\<lambda>end_time.
           case end_time of
             Naive t \<Rightarrow> Inl (Raise TypeError ''<'' (PStr iso_str))
           | Aware end_time_utc \<Rightarrow>
               (let start_time_utc = end_time_utc - minutes 15 in
                if now_utc < start_time_utc \<or> now_utc > end_time_utc
                then Inr (False, None, None)
                else
                  (let minutes_running = total_minutes (now_utc - start_time_utc);
                       is_new = (0 \<le> minutes_running \<and> minutes_running \<le> 3);
                       start_time_wib = start_time_utc
                   in Inr (is_new, Some start_time_wib, Some minutes_running))))))"

text \<open>
  \<open>analyze_market_timing\<close>: the \<open>except Exception\<close> branch prints a warning and
  returns \<open>(False, None, None)\<close>. The second component of the result is what the call
  printed.
\<close>

definition analyze_market_timing :: "pylib \<Rightarrow> int \<Rightarrow> pyval \<Rightarrow> timing \<times> string list" where
  "analyze_market_timing lib now_utc market =
     (case analyze_market_timing_body lib now_utc market of
        Inl e \<Rightarrow>
          ((False, None, None),
           [warning_sign @ ''  Error analyzing timing: '' @ exc_message lib e])
      | Inr r \<Rightarrow> (r, []))"

section \<open>Values: numbers, indexing, iteration, text\<close>

text \<open>
  A string is a sequence of code points; in UTF-8 every byte from \<open>0x80\<close> to \<open>0xBF\<close>
  continues the code point begun before it.
\<close>

definition is_continuation :: "char \<Rightarrow> bool" where
  "is_continuation c = (128 \<le> (of_char c :: nat) \<and> (of_char c :: nat) < 192)"

definition utf8_chars :: "string \<Rightarrow> string list" where
  "utf8_chars s =
     foldr (\<lambda>c groups.
              case groups of
                [] \<Rightarrow> [[c]]
              | g # gs \<Rightarrow>
                  (case g of
                     [] \<Rightarrow> [c] # gs
                   | b # bs \<Rightarrow> if is_continuation b then (c # g) # gs else [c] # g # gs))
           s []"

text \<open>The numeric value of an \<open>int\<close>, a \<open>float\<close> or a \<open>bool\<close> (a subclass of \<open>int\<close>).\<close>

fun py_number :: "pyval \<Rightarrow> rat option" where
  "py_number (PBool b) = Some (if b then 1 else 0)"
| "py_number (PInt i) = Some (of_int i)"
| "py_number (PFloat r) = Some r"
| "py_number v = None"

text \<open>\<open>float(v)\<close>: a string is parsed, a number is converted, anything else is a type error.\<close>

fun py_float :: "pylib \<Rightarrow> pyval \<Rightarrow> error + rat" where
  "py_float lib (PStr s) =
     (case float_of_str lib s of
        None \<Rightarrow> Inl (Raise ValueError ''float'' (PStr s))
      | Some r \<Rightarrow> Inr r)"
| "py_float lib v =
     (case py_number v of
        None \<Rightarrow> Inl (Raise TypeError ''float'' v)
      | Some r \<Rightarrow> Inr r)"

text \<open>
  \<open>v[0]\<close>: the first element of a list, the first code point of a string; a dictionary
  decoded from JSON has string keys only, so the key \<open>0\<close> is missing.
\<close>

fun py_index0 :: "pyval \<Rightarrow> error + pyval" where
  "py_index0 (PList []) = Inl (Raise IndexError ''[0]'' (PList []))"
| "py_index0 (PList (x # xs)) = Inr x"
| "py_index0 (PStr s) =
     (case utf8_chars s of
        [] \<Rightarrow> Inl (Raise IndexError ''[0]'' (PStr s))
      | c # cs \<Rightarrow> Inr (PStr c))"
| "py_index0 (PDict kvs) = Inl (Raise KeyError ''[0]'' (PDict kvs))"
| "py_index0 v = Inl (Raise TypeError ''[0]'' v)"

fun py_len :: "pyval \<Rightarrow> error + nat" where
  "py_len (PList xs) = Inr (length xs)"
| "py_len (PStr s) = Inr (length (utf8_chars s))"
| "py_len (PDict kvs) = Inr (length kvs)"
| "py_len v = Inl (Raise TypeError ''len'' v)"

text \<open>\<open>for m in v\<close>: the elements of a list, the code points of a string, the keys of a dictionary.\<close>

fun py_iter :: "pyval \<Rightarrow> error + pyval list" where
  "py_iter (PList xs) = Inr xs"
| "py_iter (PStr s) = Inr (map PStr (utf8_chars s))"
| "py_iter (PDict kvs) = Inr (map (\<lambda>kv. PStr (fst kv)) kvs)"
| "py_iter v = Inl (Raise TypeError ''iter'' v)"

text \<open>\<open>v > k\<close> and \<open>v < k\<close> against a numeric constant \<open>k\<close>.\<close>

definition py_gt :: "pyval \<Rightarrow> rat \<Rightarrow> error + bool" where
  "py_gt v k =
     (case py_number v of
        None \<Rightarrow> Inl (Raise TypeError ''>'' v)
      | Some r \<Rightarrow> Inr (r > k))"

definition py_lt :: "pyval \<Rightarrow> rat \<Rightarrow> error + bool" where
  "py_lt v k =
     (case py_number v of
        None \<Rightarrow> Inl (Raise TypeError ''<'' v)
      | Some r \<Rightarrow> Inr (r < k))"

text \<open>
  A replacement field \<open>{v:spec}\<close> whose specification ends in \<open>f\<close>: a number is formatted
  as a float; a string rejects the format code (\<open>ValueError\<close>); \<open>None\<close>, a list and a
  dictionary reject every non-empty specification (\<open>TypeError\<close>).
\<close>

fun py_format_f :: "pylib \<Rightarrow> string \<Rightarrow> pyval \<Rightarrow> error + string" where
  "py_format_f lib spec (PStr s) = Inl (Raise ValueError ''format'' (PStr s))"
| "py_format_f lib spec v =
     (case py_number v of
        None \<Rightarrow> Inl (Raise TypeError ''format'' v)
      | Some r \<Rightarrow> Inr (format_float lib spec r))"

text \<open>A replacement field \<open>{v}\<close>: \<open>str(v)\<close>.\<close>

fun py_str :: "pylib \<Rightarrow> pyval \<Rightarrow> string" where
  "py_str lib (PStr s) = s"
| "py_str lib v = str_of_val lib v"

text \<open>
  \<open>s.lower()\<close> and \<open>s.upper()\<close>. The result of \<open>lower\<close> is only searched for \<open>up\<close> and
  \<open>down\<close>, and the only code points that \<open>lower\<close> maps to one of the letters
  \<open>d n o p u w\<close> are the ASCII capitals, so the letters \<open>A\<close> to \<open>Z\<close> are lowered and every
  other byte is kept. \<open>upper\<close> is applied to the confidence labels only.
\<close>

definition ascii_lower :: "char \<Rightarrow> char" where
  "ascii_lower c =
     (let n = (of_char c :: nat) in if 65 \<le> n \<and> n \<le> 90 then char_of (n + 32) else c)"

definition ascii_upper :: "char \<Rightarrow> char" where
  "ascii_upper c =
     (let n = (of_char c :: nat) in if 97 \<le> n \<and> n \<le> 122 then char_of (n - 32) else c)"

fun py_lower :: "pyval \<Rightarrow> error + string" where
  "py_lower (PStr s) = Inr (map ascii_lower s)"
| "py_lower v = Inl (Raise AttributeError ''lower'' v)"

text \<open>\<open>sub in s\<close> on strings.\<close>

fun contains :: "string \<Rightarrow> string \<Rightarrow> bool" where
  "contains sub [] = (sub = [])"
| "contains sub (c # cs) = (take (length sub) (c # cs) = sub \<or> contains sub cs)"

definition newline :: string where
  "newline = [CHR 0x0A]"

fun join :: "string \<Rightarrow> string list \<Rightarrow> string" where
  "join sep [] = []"
| "join sep [x] = x"
| "join sep (x # y # ys) = x @ sep @ join sep (y # ys)"

fun decimal :: "nat \<Rightarrow> string" where
  "decimal n =
     (if n < 10 then [char_of (48 + n)]
      else decimal (n div 10) @ [char_of (48 + n mod 10)])"

definition two_digits :: "nat \<Rightarrow> string" where
  "two_digits n = [char_of (48 + n div 10 mod 10), char_of (48 + n mod 10)]"

text \<open>
  \<open>strftime\<close> of an instant shown in WIB (UTC+7): the fields of the local time of day.
\<close>

definition wib_seconds :: "int \<Rightarrow> nat" where
  "wib_seconds t = nat (((t + 7 * 60 * minutes 1) div 1000000) mod 86400)"

definition strftime_HMS :: "int \<Rightarrow> string" where
  "strftime_HMS t =
     (let s = wib_seconds t
      in two_digits (s div 3600) @ '':'' @ two_digits (s div 60 mod 60) @ '':'' @
         two_digits (s mod 60))"

definition strftime_HM :: "int \<Rightarrow> string" where
  "strftime_HM t =
     (let s = wib_seconds t
      in two_digits (s div 3600) @ '':'' @ two_digits (s div 60 mod 60))"

section \<open>Prediction engine\<close>

definition chart_up :: string where
  "chart_up = [CHR 0xF0, CHR 0x9F, CHR 0x93, CHR 0x88]"

definition chart_down :: string where
  "chart_down = [CHR 0xF0, CHR 0x9F, CHR 0x93, CHR 0x89]"

definition arrow_right :: string where
  "arrow_right = [CHR 0xE2, CHR 0x9E, CHR 0xA1, CHR 0xEF, CHR 0xB8, CHR 0x8F]"

definition bullet :: string where
  "bullet = [CHR 0xE2, CHR 0x80, CHR 0xA2]"

type_synonym prediction = "string \<times> string \<times> string"

text \<open>
  \<open>next((m for m in markets_data if w in m.get("outcome", "").lower()), None)\<close>:
  the first leg whose lowered outcome label contains \<open>w\<close>, or \<open>None\<close>. The generator
  stops at the first match, so a leg after it is never looked at. \<open>not leg\<close> on the
  result is \<open>True\<close> for \<open>None\<close> and for a leg that is not truthy.
\<close>

fun find_outcome :: "string \<Rightarrow> pyval list \<Rightarrow> error + pyval option" where
  "find_outcome w [] = Inr None"
| "find_outcome w (m # ms) =
     (case py_get m ''outcome'' (PStr []) of
        Inl e \<Rightarrow> Inl e
      | Inr label \<Rightarrow>
          (case py_lower label of
             Inl e \<Rightarrow> Inl e
           | Inr low \<Rightarrow> if contains w low then Inr (Some m) else find_outcome w ms))"

text \<open>\<open>float(leg.get("outcomePrices", ["0.5"])[0]) * 100\<close>\<close>

definition leg_odds :: "pylib \<Rightarrow> pyval \<Rightarrow> error + rat" where
  "leg_odds lib leg =
     bind (py_get leg ''outcomePrices'' (PList [PStr ''0.5''])) (\<lambda>prices.
     bind (py_index0 prices) (\<lambda>price.
     bind (py_float lib price) (\<lambda>p. Inr (p * 100))))"

text \<open>\<open>float(market.get("volume", 0))\<close>\<close>

definition market_volume :: "pylib \<Rightarrow> pyval \<Rightarrow> error + rat" where
  "market_volume lib market =
     bind (py_get market ''volume'' (PInt 0)) (\<lambda>v. py_float lib v)"

text \<open>
  Factor 1, the momentum of the 24h change (lines 132 to 147): the score and the
  list of factors before, and after.
\<close>

definition momentum_factor ::
  "pylib \<Rightarrow> pyval \<Rightarrow> int \<times> string list \<Rightarrow> error + int \<times> string list" where
  "momentum_factor lib btc_change_24h st =
     (case st of (score, factors) \<Rightarrow>
      if btc_change_24h = PNone then Inr (score, factors)
      else
        bind (py_gt btc_change_24h 2) (\<lambda>strong_up.
        if strong_up then
          bind (py_format_f lib ''.2f'' btc_change_24h) (\<lambda>txt.
            Inr (score + 2, factors @ [''BTC strong bullish momentum (+'' @ txt @ ''%)'']))
        else
          bind (py_gt btc_change_24h (1 / 2)) (\<lambda>up.
          if up then
            bind (py_format_f lib ''.2f'' btc_change_24h) (\<lambda>txt.
              Inr (score + 1, factors @ [''BTC bullish (+'' @ txt @ ''%)'']))
          else
            bind (py_lt btc_change_24h (- 2)) (\<lambda>strong_down.
            if strong_down then
              bind (py_format_f lib ''.2f'' btc_change_24h) (\<lambda>txt.
                Inr (score - 2, factors @ [''BTC strong bearish momentum ('' @ txt @ ''%)'']))
            else
              bind (py_lt btc_change_24h (- (1 / 2))) (\<lambda>down.
              if down then
                bind (py_format_f lib ''.2f'' btc_change_24h) (\<lambda>txt.
                  Inr (score - 1, factors @ [''BTC bearish ('' @ txt @ ''%)'']))
              else
                bind (py_format_f lib ''.2f'' btc_change_24h) (\<lambda>txt.
                  Inr (score, factors @ [''BTC neutral ('' @ txt @ ''%)''])))))))"

text \<open>Factor 2, the crowd's odds (lines 149 to 158).\<close>

definition crowd_factor ::
  "pylib \<Rightarrow> rat \<Rightarrow> rat \<Rightarrow> int \<times> string list \<Rightarrow> int \<times> string list" where
  "crowd_factor lib up_odds down_odds st =
     (case st of (score, factors) \<Rightarrow>
      let odds_diff = up_odds - down_odds;
          vs = format_float lib ''.0f'' up_odds @ ''% vs '' @
               format_float lib ''.0f'' down_odds @ ''%)''
      in if odds_diff > 10 then (score + 1, factors @ [''Crowd leans UP ('' @ vs])
         else if odds_diff < - 10 then (score - 1, factors @ [''Crowd leans DOWN ('' @ vs])
         else (score, factors @ [''Crowd neutral ('' @ vs]))"

text \<open>Factor 3, the volume (lines 160 to 166): it adds a line and leaves the score.\<close>

definition volume_factor :: "pylib \<Rightarrow> rat \<Rightarrow> int \<times> string list \<Rightarrow> int \<times> string list" where
  "volume_factor lib volume st =
     (case st of (score, factors) \<Rightarrow>
      let txt = format_float lib ''.0f'' volume
      in if volume < 100 then
           (score, factors @ [warning_sign @ '' Very low volume ($'' @ txt @ '') - high risk!''])
         else if volume < 500 then
           (score, factors @ [''Low volume ($'' @ txt @ '') - moderate risk''])
         else (score, factors @ [''Good volume ($'' @ txt @ '')'']))"

text \<open>The direction and the confidence of a score (lines 169 to 177).\<close>

definition prediction_of_score :: "int \<Rightarrow> string \<times> string" where
  "prediction_of_score score =
     (if score \<ge> 2 then (''UP '' @ chart_up, if score \<ge> 3 then ''HIGH'' else ''MEDIUM'')
      else if score \<le> - 2 then
        (''DOWN '' @ chart_down, if score \<le> - 3 then ''HIGH'' else ''MEDIUM'')
      else (''NEUTRAL '' @ arrow_right, ''LOW''))"

text \<open>The \<open>try\<close> block of \<open>generate_prediction\<close>.\<close>

definition generate_prediction_body ::
  "pylib \<Rightarrow> pyval \<Rightarrow> pyval \<Rightarrow> pyval \<Rightarrow> error + prediction" where
  "generate_prediction_body lib btc_price btc_change_24h market =
     bind (py_get market ''markets'' (PList [])) (\<lambda>markets_data.
     bind (if \<not> truthy markets_data then Inr True
           else bind (py_len markets_data) (\<lambda>n. Inr (n < 2))) (\<lambda>too_few.
     if too_few then Inr (''UNKNOWN'', ''LOW'', ''Insufficient market data'')
     else
       bind (py_iter markets_data) (\<lambda>legs.
       bind (find_outcome ''up'' legs) (\<lambda>up_market.
       bind (find_outcome ''down'' legs) (\<lambda>down_market.
       case (up_market, down_market) of
         (Some up, Some down) \<Rightarrow>
           if \<not> truthy up \<or> \<not> truthy down
           then Inr (''UNKNOWN'', ''LOW'', ''Cannot find UP/DOWN outcomes'')
           else
             bind (leg_odds lib up) (\<lambda>up_odds.
             bind (leg_odds lib down) (\<lambda>down_odds.
             bind (market_volume lib market) (\<lambda>volume.
             bind (momentum_factor lib btc_change_24h (0, [])) (\<lambda>st1.
               let st2 = crowd_factor lib up_odds down_odds st1;
                   st3 = volume_factor lib volume st2;
                   score = fst st3;
                   factors = snd st3;
                   label = prediction_of_score score;
                   reasoning = join newline (map (\<lambda>f. ''  '' @ bullet @ '' '' @ f) factors)
               in Inr (fst label, snd label, reasoning)))))
       | _ \<Rightarrow> Inr (''UNKNOWN'', ''LOW'', ''Cannot find UP/DOWN outcomes''))))))"

text \<open>
  \<open>generate_prediction\<close>: every exception of the \<open>try\<close> block is caught and turned
  into the result \<open>UNKNOWN\<close>, \<open>LOW\<close> with the message of the exception.
\<close>

definition generate_prediction ::
  "pylib \<Rightarrow> pyval \<Rightarrow> pyval \<Rightarrow> pyval \<Rightarrow> error + prediction" where
  "generate_prediction lib btc_price btc_change_24h market =
     (case generate_prediction_body lib btc_price btc_change_24h market of
        Inl e \<Rightarrow> Inr (''UNKNOWN'', ''LOW'', ''Error in prediction: '' @ exc_message lib e)
      | Inr r \<Rightarrow> Inr r)"

section \<open>Notification formatter\<close>

definition bell :: string where
  "bell = [CHR 0xF0, CHR 0x9F, CHR 0x94, CHR 0x94]"

definition alarm_clock :: string where
  "alarm_clock = [CHR 0xE2, CHR 0x8F, CHR 0xB0]"

definition link_symbol :: string where
  "link_symbol = [CHR 0xF0, CHR 0x9F, CHR 0x94, CHR 0x97]"

definition bar_chart :: string where
  "bar_chart = [CHR 0xF0, CHR 0x9F, CHR 0x93, CHR 0x8A]"

definition light_bulb :: string where
  "light_bulb = [CHR 0xF0, CHR 0x9F, CHR 0x92, CHR 0xA1]"

definition money_bag :: string where
  "money_bag = [CHR 0xF0, CHR 0x9F, CHR 0x92, CHR 0xB0]"

definition stopwatch :: string where
  "stopwatch = [CHR 0xE2, CHR 0x8F, CHR 0xB1, CHR 0xEF, CHR 0xB8, CHR 0x8F]"

text \<open>
  \<open>float(leg.get("outcomePrices", ["0.5"])[0]) * 100 if leg else 50\<close>, for the result
  of \<open>next\<close>.
\<close>

fun shown_odds :: "pylib \<Rightarrow> pyval option \<Rightarrow> error + rat" where
  "shown_odds lib None = Inr 50"
| "shown_odds lib (Some leg) = (if truthy leg then leg_odds lib leg else Inr 50)"

text \<open>\<open>"chart up" if btc_change_24h and btc_change_24h > 0 else "chart down"\<close>\<close>

definition btc_emoji_of :: "pyval \<Rightarrow> error + string" where
  "btc_emoji_of btc_change_24h =
     (if \<not> truthy btc_change_24h then Inr chart_down
      else bind (py_gt btc_change_24h 0) (\<lambda>up. Inr (if up then chart_up else chart_down)))"

definition volume_warning_of :: "rat \<Rightarrow> string" where
  "volume_warning_of volume =
     (if volume < 100 then
        newline @ newline @ warning_sign @
        '' **CRITICAL WARNING: Very low volume - extremely high risk!**''
      else if volume < 500 then
        newline @ newline @ warning_sign @ '' **WARNING: Low volume - high risk!**''
      else [])"

text \<open>
  The text of the message (lines 219 to 243), from the values of its replacement
  fields; \<open>price_txt\<close> and \<open>change_txt\<close> are the formatted price and 24h change.
\<close>

definition notification_text ::
  "pylib \<Rightarrow> int \<Rightarrow> string \<Rightarrow> prediction \<Rightarrow> string \<Rightarrow> string \<Rightarrow> string \<Rightarrow> rat \<Rightarrow> rat \<Rightarrow>
   rat \<Rightarrow> string \<Rightarrow> int \<Rightarrow> rat \<Rightarrow> rat \<Rightarrow> string" where
  "notification_text lib start_time_wib market_url pred price_txt change_txt btc_emoji
     up_odds down_odds volume volume_warning close_time_wib time_to_close_min minutes_running =
     (case pred of (prediction, confidence, reasoning) \<Rightarrow>
      bell @ '' **MARKET BARU DIMULAI!**'' @ newline @
      newline @
      replicate 50 CHR ''='' @ newline @
      alarm_clock @ '' **STARTED AT:** '' @ strftime_HMS start_time_wib @ '' WIB'' @ newline @
      replicate 50 CHR ''='' @ newline @
      newline @
      link_symbol @ '' '' @ market_url @ newline @
      newline @
      bar_chart @ '' **PREDIKSI: '' @ prediction @ '' '' @ map ascii_upper confidence @
        ''**'' @ newline @
      ''Confidence: '' @ confidence @ newline @
      newline @
      light_bulb @ '' **Analisis:**'' @ newline @
      reasoning @ newline @
      newline @
      money_bag @ '' **Market Conditions:**'' @ newline @
      ''- BTC: $'' @ price_txt @ '' ('' @ change_txt @ ''% 24h) '' @ btc_emoji @ newline @
      ''- Odds: '' @ format_float lib ''.0f'' up_odds @ ''% UP / '' @
        format_float lib ''.0f'' down_odds @ ''% DOWN'' @ newline @
      ''- Volume: $'' @ format_float lib ''.0f'' volume @ volume_warning @ newline @
      newline @
      stopwatch @ '' **Timing:**'' @ newline @
      ''- Started: '' @ strftime_HM start_time_wib @ '' WIB'' @ newline @
      ''- Closes: '' @ strftime_HM close_time_wib @ '' WIB  '' @ newline @
      ''- Time to Close: '' @ format_float lib ''.1f'' time_to_close_min @
        '' minutes'' @ newline @
      ''- Running: '' @ format_float lib ''.1f'' minutes_running @ '' minutes'' @
        newline)"

text \<open>
  \<open>format_notification\<close>. No statement of it is inside a \<open>try\<close>, so an exception of
  any step is the result. The replacement fields of the message are evaluated in the
  order of the text; the price and the 24h change are the two that can raise.
\<close>

definition format_notification ::
  "pylib \<Rightarrow> pyval \<Rightarrow> pyval \<Rightarrow> pyval \<Rightarrow> int \<Rightarrow> rat \<Rightarrow> error + string" where
  "format_notification lib market btc_price btc_change_24h start_time_wib minutes_running =
     bind (generate_prediction lib btc_price btc_change_24h market) (\<lambda>pred.
     bind (py_get market ''slug'' (PStr ''unknown'')) (\<lambda>slug.
     let market_url = ''https://polymarket.com/event/'' @ py_str lib slug in
     bind (py_get market ''markets'' (PList [])) (\<lambda>markets_data.
     bind (py_iter markets_data) (\<lambda>legs.
     bind (find_outcome ''up'' legs) (\<lambda>up_market.
     bind (find_outcome ''down'' legs) (\<lambda>down_market.
     bind (shown_odds lib up_market) (\<lambda>up_odds.
     bind (shown_odds lib down_market) (\<lambda>down_odds.
     bind (market_volume lib market) (\<lambda>volume.
     let close_time_wib = start_time_wib + minutes 15;
         time_to_close_min = 15 - minutes_running
     in
     bind (btc_emoji_of btc_change_24h) (\<lambda>btc_emoji.
     let volume_warning = volume_warning_of volume in
     bind (py_format_f lib '',.0f'' btc_price) (\<lambda>price_txt.
     bind (py_format_f lib ''+.2f'' btc_change_24h) (\<lambda>change_txt.
       Inr (notification_text lib start_time_wib market_url pred price_txt change_txt
              btc_emoji up_odds down_odds volume volume_warning close_time_wib
              time_to_close_min minutes_running)))))))))))))"

section \<open>Notification dispatcher\<close>

definition check_mark :: string where
  "check_mark = [CHR 0xE2, CHR 0x9C, CHR 0x85]"

definition cross_mark :: string where
  "cross_mark = [CHR 0xE2, CHR 0x9D, CHR 0x8C]"

text \<open>
  \<open>send_notification\<close>. \<open>webhook\<close> is the value of \<open>NEBULA_WEBHOOK_URL\<close>, that is
  \<open>os.getenv\<close> of the variable: \<open>None\<close> when it is unset. The result is the returned
  boolean and the arguments of the calls of \<open>print\<close>, in order.
\<close>

definition send_notification :: "pylib \<Rightarrow> string option \<Rightarrow> string \<Rightarrow> bool \<times> string list" where
  "send_notification lib webhook message =
     (case webhook of
        None \<Rightarrow>
          (False,
           [warning_sign @ ''  NEBULA_WEBHOOK_URL not set - notification not sent'',
            newline @ message @ newline])
      | Some url \<Rightarrow>
          if url = [] then
            (False,
             [warning_sign @ ''  NEBULA_WEBHOOK_URL not set - notification not sent'',
              newline @ message @ newline])
          else
            (case http_post lib url message of
               None \<Rightarrow> (True, [check_mark @ '' Notification sent successfully''])
             | Some e \<Rightarrow>
                 (False,
                  [cross_mark @ '' Error sending notification: '' @ exc_message lib e,
                   newline @ ''Message that failed to send:'' @ newline @ message @ newline])))"

section \<open>One poll cycle\<close>

definition magnifier :: string where
  "magnifier = [CHR 0xF0, CHR 0x9F, CHR 0x94, CHR 0x8D]"

definition direct_hit :: string where
  "direct_hit = [CHR 0xF0, CHR 0x9F, CHR 0x8E, CHR 0xAF]"

definition party_popper :: string where
  "party_popper = [CHR 0xF0, CHR 0x9F, CHR 0x8E, CHR 0x89]"

text \<open>
  The body of the loop of \<open>check_for_new_markets\<close> for one market: the count of new
  markets and the printed lines before, and after. \<open>now_utc\<close> is the reading of the
  clock taken while this market is analysed.
\<close>

definition check_market ::
  "pylib \<Rightarrow> string option \<Rightarrow> pyval \<Rightarrow> pyval \<Rightarrow> int \<Rightarrow> pyval \<Rightarrow> nat \<times> string list \<Rightarrow>
   error + nat \<times> string list" where
  "check_market lib webhook btc_price btc_change_24h now_utc market st =
     (case st of (new_markets_found, out) \<Rightarrow>
      case analyze_market_timing lib now_utc market of
        ((is_new, start, running), printed) \<Rightarrow>
          if \<not> is_new then Inr (new_markets_found, out @ printed)
          else
            (case (start, running) of
               (Some start_time_wib, Some minutes_running) \<Rightarrow>
                 bind (py_get market ''slug'' (PStr ''unknown'')) (\<lambda>slug.
                 let out1 = out @ printed @
                       [newline @ direct_hit @ '' NEW MARKET DETECTED!'',
                        ''   Slug: '' @ py_str lib slug,
                        ''   Started: '' @ strftime_HMS start_time_wib @ '' WIB'',
                        ''   Running: '' @ format_float lib ''.1f'' minutes_running @
                          '' minutes'']
                 in
                 bind (format_notification lib market btc_price btc_change_24h
                         start_time_wib minutes_running) (\<lambda>notification.
                   Inr (Suc new_markets_found,
                        out1 @ snd (send_notification lib webhook notification))))
             | _ \<Rightarrow> Inl (Raise AttributeError ''strftime'' PNone)))"

text \<open>
  The loop \<open>for market in markets\<close>: the first exception ends it. \<open>clock i\<close> is the
  reading of the clock for the market at position \<open>i\<close>.
\<close>

fun check_markets ::
  "pylib \<Rightarrow> string option \<Rightarrow> pyval \<Rightarrow> pyval \<Rightarrow> (nat \<Rightarrow> int) \<Rightarrow> nat \<Rightarrow> pyval list \<Rightarrow>
   nat \<times> string list \<Rightarrow> error + nat \<times> string list" where
  "check_markets lib webhook btc_price btc_change_24h clock i [] st = Inr st"
| "check_markets lib webhook btc_price btc_change_24h clock i (market # rest) st =
     (case check_market lib webhook btc_price btc_change_24h (clock i) market st of
        Inl e \<Rightarrow> Inl e
      | Inr st' \<Rightarrow> check_markets lib webhook btc_price btc_change_24h clock (Suc i) rest st')"

text \<open>
  \<open>check_for_new_markets\<close>. \<open>now_wib\<close> is the reading of \<open>get_wib_time()\<close>;
  \<open>btc_price\<close> and \<open>btc_change_24h\<close> are what \<open>fetch_btc_price()\<close> returned
  (\<open>None\<close>, \<open>None\<close> when the fetch failed) and \<open>markets\<close> what
  \<open>fetch_polymarket_markets()\<close> returned. The result is what the cycle printed, or the
  exception that ended it.
\<close>

definition check_for_new_markets ::
  "pylib \<Rightarrow> string option \<Rightarrow> int \<Rightarrow> (nat \<Rightarrow> int) \<Rightarrow> pyval \<Rightarrow> pyval \<Rightarrow> pyval \<Rightarrow>
   error + string list" where
  "check_for_new_markets lib webhook now_wib clock btc_price btc_change_24h markets =
     (let out0 = [newline @ replicate 60 CHR ''='',
                  magnifier @ '' Checking for new markets at '' @ strftime_HMS now_wib @ '' WIB'',
                  replicate 60 CHR ''='']
      in
      bind (if truthy btc_price then
              bind (py_format_f lib '',.2f'' btc_price) (\<lambda>price_txt.
              bind (py_format_f lib ''+.2f'' btc_change_24h) (\<lambda>change_txt.
                Inr (out0 @ [money_bag @ '' BTC: $'' @ price_txt @ '' ('' @ change_txt @
                             ''% 24h)''])))
            else Inr out0) (\<lambda>out1.
      bind (py_len markets) (\<lambda>n.
      let out2 = out1 @ [bar_chart @ '' Found '' @ decimal n @ '' active markets''] in
      if \<not> truthy markets then
        Inr (out2 @ [warning_sign @ ''  No markets found or API error''])
      else
        bind (py_iter markets) (\<lambda>ms.
        bind (check_markets lib webhook btc_price btc_change_24h clock 0 ms (0, out2)) (\<lambda>st.
          case st of (new_markets_found, out3) \<Rightarrow>
            if new_markets_found = 0 then
              Inr (out3 @ [check_mark @ '' No new markets (0-3 minutes old)''])
            else
              Inr (out3 @ [newline @ party_popper @ '' Total new markets detected: '' @
                           decimal new_markets_found]))))))"

section \<open>Well-formed legs\<close>

text \<open>
  A leg of the data model is a dictionary whose outcome label, when it has one, is a
  string. \<open>outcome_contains w leg\<close>: the label of the leg contains \<open>w\<close>, whatever the
  case of its letters; a leg without a label has the empty label.
\<close>

fun well_formed_leg :: "pyval \<Rightarrow> bool" where
  "well_formed_leg (PDict kvs) =
     (case map_of kvs ''outcome'' of
        None \<Rightarrow> True
      | Some (PStr s) \<Rightarrow> True
      | Some v \<Rightarrow> False)"
| "well_formed_leg v = False"

fun outcome_contains :: "string \<Rightarrow> pyval \<Rightarrow> bool" where
  "outcome_contains w (PDict kvs) =
     (case map_of kvs ''outcome'' of
        None \<Rightarrow> contains w []
      | Some (PStr s) \<Rightarrow> contains w (map ascii_lower s)
      | Some v \<Rightarrow> False)"
| "outcome_contains w v = False"

section \<open>An instance of the library interface\<close>

text \<open>
  \<open>example_lib\<close> is an instance of the library interface that the examples below are
  evaluated with. Its \<open>float\<close> reads plain decimal literals (a sign, digits, a point,
  digits), its \<open>float.__format__\<close> renders the fixed-point specifications that the
  monitor uses, rounding the exact value half to even as CPython does, and its
  \<open>fromisoformat\<close>, \<open>str\<close> and exception messages are tables of the arguments that
  the examples use. Its HTTP POST always succeeds.
\<close>

definition digit_of :: "char \<Rightarrow> nat option" where
  "digit_of c =
     (let n = (of_char c :: nat) in if 48 \<le> n \<and> n \<le> 57 then Some (n - 48) else None)"

fun digits_value :: "nat \<Rightarrow> string \<Rightarrow> nat option" where
  "digits_value acc [] = Some acc"
| "digits_value acc (c # cs) =
     (case digit_of c of None \<Rightarrow> None | Some d \<Rightarrow> digits_value (10 * acc + d) cs)"

definition parse_decimal :: "string \<Rightarrow> rat option" where
  "parse_decimal s =
     (let negative = (take 1 s = ''-'');
          unsigned = (if take 1 s = ''-'' \<or> take 1 s = ''+'' then drop 1 s else s);
          whole = takeWhile (\<lambda>c. c \<noteq> CHR ''.'') unsigned;
          fraction = drop 1 (dropWhile (\<lambda>c. c \<noteq> CHR ''.'') unsigned)
      in if whole @ fraction = [] then None
         else
           (case (digits_value 0 whole, digits_value 0 fraction) of
              (Some w, Some f) \<Rightarrow>
                (let r = of_nat w + of_nat f / 10 ^ length fraction
                 in Some (if negative then - r else r))
            | _ \<Rightarrow> None))"

definition round_half_even :: "rat \<Rightarrow> nat" where
  "round_half_even x =
     (let f = \<lfloor>x\<rfloor>; d = x - of_int f
      in nat (if d < 1 / 2 then f else if d > 1 / 2 then f + 1
              else if even f then f else f + 1))"

fun group_thousands :: "nat \<Rightarrow> string" where
  "group_thousands n =
     (if n < 1000 then decimal n
      else group_thousands (n div 1000) @ '','' @
           [char_of (48 + n div 100 mod 10), char_of (48 + n div 10 mod 10),
            char_of (48 + n mod 10)])"

definition zero_pad :: "nat \<Rightarrow> string \<Rightarrow> string" where
  "zero_pad w s = replicate (w - length s) CHR ''0'' @ s"

text \<open>
  \<open>format_fixed signed grouped p x\<close>: \<open>x\<close> with \<open>p\<close> digits after the point; \<open>signed\<close> shows
  the sign of a value that is not negative, \<open>grouped\<close> groups the thousands.
\<close>

definition format_fixed :: "bool \<Rightarrow> bool \<Rightarrow> nat \<Rightarrow> rat \<Rightarrow> string" where
  "format_fixed signed grouped p x =
     (let m = round_half_even (\<bar>x\<bar> * 10 ^ p);
          whole = m div 10 ^ p;
          fraction = m mod 10 ^ p
      in (if x < 0 then ''-'' else if signed then ''+'' else []) @
         (if grouped then group_thousands whole else decimal whole) @
         (if p = 0 then [] else ''.'' @ zero_pad p (decimal fraction)))"

definition example_format :: "string \<Rightarrow> rat \<Rightarrow> string" where
  "example_format spec x =
     (if spec = ''.0f'' then format_fixed False False 0 x
      else if spec = ''.1f'' then format_fixed False False 1 x
      else if spec = ''.2f'' then format_fixed False False 2 x
      else if spec = ''+.2f'' then format_fixed True False 2 x
      else if spec = '',.0f'' then format_fixed False True 0 x
      else if spec = '',.2f'' then format_fixed False True 2 x
      else [])"

definition example_fromisoformat :: "string \<Rightarrow> datetime option" where
  "example_fromisoformat s =
     (if s = ''2024-01-01T00:15:00+00:00'' then Some (Aware 1704068100000000)
      else if s = ''2024-01-01T00:15:00'' then Some (Naive 1704068100000000)
      else None)"

definition example_str :: "pyval \<Rightarrow> string" where
  "example_str v =
     (case v of
        PNone \<Rightarrow> ''None''
      | PBool b \<Rightarrow> (if b then ''True'' else ''False'')
      | PInt i \<Rightarrow> (if i < 0 then ''-'' else []) @ decimal (nat \<bar>i\<bar>)
      | _ \<Rightarrow> [])"

definition example_message :: "error \<Rightarrow> string" where
  "example_message e =
     (case e of
        Raise ValueError opn (PStr s) \<Rightarrow>
          (if opn = ''float''
           then ''could not convert string to float: '' @ [CHR 0x27] @ s @ [CHR 0x27]
           else [])
      | Raise TypeError opn PNone \<Rightarrow>
          (if opn = ''format''
           then ''unsupported format string passed to NoneType.__format__''
           else [])
      | _ \<Rightarrow> [])"

definition example_lib :: pylib where
  "example_lib =
     \<lparr> fromisoformat = example_fromisoformat,
       float_of_str = parse_decimal,
       format_float = example_format,
       str_of_val = example_str,
       exc_message = example_message,
       http_post = (\<lambda>url message. None) \<rparr>"

text \<open>
  Two market records of the examples: closing at 00:15:00 UTC on 2024-01-01, with an
  up leg and a down leg; the second one has a price that is not a number.
\<close>

definition up_leg :: pyval where
  "up_leg = PDict [(''outcome'', PStr ''Up''), (''outcomePrices'', PList [PStr ''0.75''])]"

definition down_leg :: pyval where
  "down_leg = PDict [(''outcome'', PStr ''Down''), (''outcomePrices'', PList [PStr ''0.25''])]"

definition malformed_leg :: pyval where
  "malformed_leg = PDict [(''outcome'', PStr ''Up''), (''outcomePrices'', PList [PStr ''abc''])]"

definition example_market :: pyval where
  "example_market =
     PDict [(''slug'', PStr ''btc-15m-a''),
            (''end_date_iso'', PStr ''2024-01-01T00:15:00Z''),
            (''volume'', PStr ''1000''),
            (''markets'', PList [up_leg, down_leg])]"

definition malformed_market :: pyval where
  "malformed_market =
     PDict [(''slug'', PStr ''btc-15m-b''),
            (''end_date_iso'', PStr ''2024-01-01T00:15:00Z''),
            (''volume'', PStr ''1000''),
            (''markets'', PList [malformed_leg, down_leg])]"

text \<open>One minute after the start of these markets: 00:01:00 UTC on 2024-01-01.\<close>

definition example_now :: int where
  "example_now = 1704067260000000"

section \<open>Properties of the window classifier\<close>

lemma total_minutes_le_3: "(total_minutes d \<le> 3) = (d \<le> minutes 3)"
proof -
  have "(total_minutes d \<le> 3) = ((of_int d :: rat) \<le> of_int 180000000)"
    by (simp add: total_minutes_def field_simps)
  also have "\<dots> = (d \<le> 180000000)"
    by (simp only: of_int_le_iff)
  finally show ?thesis
    by (simp add: minutes_def)
qed

lemma total_minutes_ge_0: "(0 \<le> total_minutes d) = (0 \<le> d)"
  by (simp add: total_minutes_def field_simps)

lemma total_minutes_le_15: "(total_minutes d \<le> 15) = (d \<le> minutes 15)"
proof -
  have "(total_minutes d \<le> 15) = ((of_int d :: rat) \<le> of_int 900000000)"
    by (simp add: total_minutes_def field_simps)
  also have "\<dots> = (d \<le> 900000000)"
    by (simp only: of_int_le_iff)
  finally show ?thesis
    by (simp add: minutes_def)
qed

lemma timing_of_aware:
  assumes "map_of kvs ''end_date_iso'' = Some (PStr s)"
    and "s \<noteq> []"
    and "fromisoformat lib (replace_Z s) = Some (Aware c)"
  shows "analyze_market_timing_body lib now (PDict kvs) =
     (if now < c - minutes 15 \<or> now > c then Inr (False, None, None)
      else Inr (0 \<le> now - (c - minutes 15) \<and> now - (c - minutes 15) \<le> minutes 3,
                Some (c - minutes 15),
                Some (total_minutes (now - (c - minutes 15)))))"
  using assms
  by (simp add: analyze_market_timing_body_def bind_def py_fromisoformat_def Let_def
        total_minutes_le_3 total_minutes_ge_0)

text \<open>
  Claim C1. Let the market carry a close timestamp that parses to the instant \<open>c\<close>.
  At every reading \<open>now\<close> of the clock the classifier returns freshness true if and
  only if \<open>0 \<le> now - (c - 15 min) \<le> 3 min\<close> and \<open>now \<le> c\<close>; for every \<open>now\<close> outside
  the interval from \<open>c - 15 min\<close> to \<open>c\<close> it returns freshness false.
\<close>

theorem fresh_iff_within_three_minutes:
  assumes "map_of kvs ''end_date_iso'' = Some (PStr s)"
    and "s \<noteq> []"
    and "fromisoformat lib (replace_Z s) = Some (Aware c)"
  shows "(fst (fst (analyze_market_timing lib now (PDict kvs))) =
            (0 \<le> now - (c - minutes 15) \<and> now - (c - minutes 15) \<le> minutes 3 \<and> now \<le> c))
         \<and> (now < c - minutes 15 \<or> c < now \<longrightarrow>
              \<not> fst (fst (analyze_market_timing lib now (PDict kvs))))"
proof -
  have body: "analyze_market_timing_body lib now (PDict kvs) =
     (if now < c - minutes 15 \<or> now > c then Inr (False, None, None)
      else Inr (0 \<le> now - (c - minutes 15) \<and> now - (c - minutes 15) \<le> minutes 3,
                Some (c - minutes 15),
                Some (total_minutes (now - (c - minutes 15)))))"
    by (rule timing_of_aware [OF assms])
  show ?thesis
    by (auto simp: analyze_market_timing_def body minutes_def)
qed

theorem fresh_iff_within_three_minutes_witness:
  "fst (fst (analyze_market_timing example_lib example_now example_market)) =
     (0 \<le> example_now - (1704068100000000 - minutes 15)
      \<and> example_now - (1704068100000000 - minutes 15) \<le> minutes 3
      \<and> example_now \<le> 1704068100000000)
   \<and> fst (fst (analyze_market_timing example_lib example_now example_market))"
proof -
  have k: "map_of [(''slug'', PStr ''btc-15m-a''),
            (''end_date_iso'', PStr ''2024-01-01T00:15:00Z''),
            (''volume'', PStr ''1000''),
            (''markets'', PList [up_leg, down_leg])]
          ''end_date_iso'' = Some (PStr ''2024-01-01T00:15:00Z'')"
    by simp
  have n: "''2024-01-01T00:15:00Z'' \<noteq> []"
    by simp
  have f: "fromisoformat example_lib (replace_Z ''2024-01-01T00:15:00Z'') =
             Some (Aware 1704068100000000)"
    by (simp add: example_lib_def example_fromisoformat_def replace_Z_def)
  show ?thesis
    using fresh_iff_within_three_minutes [OF k n f, of example_now]
    by (simp add: example_market_def example_now_def minutes_def)
qed

lemma body_elapsed:
  assumes "analyze_market_timing_body lib now market = Inr (is_new, start, Some m)"
  shows "\<exists>d. m = total_minutes d \<and> 0 \<le> d \<and> d \<le> minutes 15"
  using assms
  by (auto simp: analyze_market_timing_body_def bind_def Let_def
           split: sum.splits if_splits datetime.splits)

text \<open>
  Claim C10. Whenever the classifier returns a classification, that is elapsed
  minutes that are not \<open>None\<close>, the elapsed minutes lie between 0 and 15.
\<close>

theorem elapsed_minutes_range:
  assumes "analyze_market_timing lib now market = ((is_new, start, Some m), printed)"
  shows "0 \<le> m \<and> m \<le> 15"
proof -
  from assms have "analyze_market_timing_body lib now market = Inr (is_new, start, Some m)"
    by (auto simp: analyze_market_timing_def split: sum.splits)
  then obtain d where "m = total_minutes d" and "0 \<le> d" and "d \<le> minutes 15"
    using body_elapsed by blast
  then show ?thesis
    by (simp only: total_minutes_ge_0 total_minutes_le_15)
qed

theorem elapsed_minutes_range_witness:
  "analyze_market_timing example_lib example_now example_market =
     ((True, Some 1704067200000000, Some 1), []) \<and> (0::rat) \<le> 1 \<and> (1::rat) \<le> 15"
proof -
  have e: "analyze_market_timing example_lib example_now example_market =
     ((True, Some 1704067200000000, Some 1), [])"
    by (simp add: analyze_market_timing_def analyze_market_timing_body_def bind_def Let_def
         example_market_def example_lib_def example_fromisoformat_def replace_Z_def
         py_fromisoformat_def example_now_def minutes_def total_minutes_def)
  show ?thesis
    using elapsed_minutes_range [OF e] e by simp
qed


section \<open>Properties of the prediction engine\<close>

text \<open>
  Claim C2. The mapping from the score to the direction and the confidence: a score
  of 3 or more gives UP and HIGH, the score 2 gives UP and MEDIUM, a score of -1, 0 or 1
  gives NEUTRAL and LOW, the score -2 gives DOWN and MEDIUM, a score of -3 or less gives
  DOWN and HIGH; every score from -4 to 4 falls under one of these cases.
\<close>

theorem score_labels:
  "(3 \<le> score \<longrightarrow> prediction_of_score score = (''UP '' @ chart_up, ''HIGH''))
   \<and> (score = 2 \<longrightarrow> prediction_of_score score = (''UP '' @ chart_up, ''MEDIUM''))
   \<and> (score \<in> {- 1, 0, 1} \<longrightarrow> prediction_of_score score = (''NEUTRAL '' @ arrow_right, ''LOW''))
   \<and> (score = - 2 \<longrightarrow> prediction_of_score score = (''DOWN '' @ chart_down, ''MEDIUM''))
   \<and> (score \<le> - 3 \<longrightarrow> prediction_of_score score = (''DOWN '' @ chart_down, ''HIGH''))
   \<and> (- 4 \<le> score \<and> score \<le> 4 \<longrightarrow>
        3 \<le> score \<or> score = 2 \<or> score \<in> {- 1, 0, 1} \<or> score = - 2 \<or> score \<le> - 3)"
  by (auto simp: prediction_of_score_def)

theorem score_labels_witness:
  "prediction_of_score 3 = (''UP '' @ chart_up, ''HIGH'')
   \<and> prediction_of_score 2 = (''UP '' @ chart_up, ''MEDIUM'')
   \<and> prediction_of_score 0 = (''NEUTRAL '' @ arrow_right, ''LOW'')
   \<and> prediction_of_score (- 2) = (''DOWN '' @ chart_down, ''MEDIUM'')
   \<and> prediction_of_score (- 4) = (''DOWN '' @ chart_down, ''HIGH'')"
  using score_labels [of 3] score_labels [of 2] score_labels [of 0] score_labels [of "- 2"]
    score_labels [of "- 4"]
  by simp

text \<open>
  Claim C5. For every spot price, 24h change and market record the prediction engine
  returns a prediction and raises nothing: an exception of its \<open>try\<close> block becomes
  the result UNKNOWN, LOW whose rationale carries the message of the exception.
\<close>

theorem prediction_never_raises:
  "(\<exists>r. generate_prediction lib btc_price btc_change_24h market = Inr r)
   \<and> (\<forall>e. generate_prediction_body lib btc_price btc_change_24h market = Inl e \<longrightarrow>
          generate_prediction lib btc_price btc_change_24h market =
            Inr (''UNKNOWN'', ''LOW'', ''Error in prediction: '' @ exc_message lib e))"
  by (auto simp: generate_prediction_def split: sum.splits)

lemma malformed_body:
  "generate_prediction_body example_lib (PFloat 65000) (PFloat 1) malformed_market =
     Inl (Raise ValueError ''float'' (PStr ''abc''))"
  by code_simp

theorem prediction_never_raises_witness:
  "generate_prediction_body example_lib (PFloat 65000) (PFloat 1) malformed_market =
     Inl (Raise ValueError ''float'' (PStr ''abc''))
   \<and> generate_prediction example_lib (PFloat 65000) (PFloat 1) malformed_market =
     Inr (''UNKNOWN'', ''LOW'',
          ''Error in prediction: could not convert string to float: '' @ [CHR 0x27] @ ''abc'' @
          [CHR 0x27])"
  using prediction_never_raises [of example_lib "PFloat 65000" "PFloat 1" malformed_market]
    malformed_body
  by (simp add: example_lib_def example_message_def)

text \<open>
  Claim C7. The momentum factor is skipped when the 24h change is \<open>None\<close>. For a
  change with the numeric value \<open>r\<close> it adds 2 to the score when \<open>r > 2\<close>, adds 1 when
  \<open>0.5 < r \<le> 2\<close>, subtracts 2 when \<open>r < -2\<close>, subtracts 1 when \<open>-2 \<le> r < -0.5\<close>, and
  leaves the score as it is otherwise.
\<close>

theorem momentum_score:
  "momentum_factor lib PNone (score, factors) = Inr (score, factors)
   \<and> (btc_change_24h \<noteq> PNone \<and> py_number btc_change_24h = Some r \<longrightarrow>
        (\<exists>score' factors'.
           momentum_factor lib btc_change_24h (score, factors) = Inr (score', factors')
           \<and> (2 < r \<longrightarrow> score' = score + 2)
           \<and> (1 / 2 < r \<and> r \<le> 2 \<longrightarrow> score' = score + 1)
           \<and> (r < - 2 \<longrightarrow> score' = score - 2)
           \<and> (- 2 \<le> r \<and> r < - (1 / 2) \<longrightarrow> score' = score - 1)
           \<and> (- (1 / 2) \<le> r \<and> r \<le> 1 / 2 \<longrightarrow> score' = score)))"
proof (intro conjI impI)
  show "momentum_factor lib PNone (score, factors) = Inr (score, factors)"
    by (simp add: momentum_factor_def)
next
  assume a: "btc_change_24h \<noteq> PNone \<and> py_number btc_change_24h = Some r"
  then have fmt: "\<And>spec. py_format_f lib spec btc_change_24h = Inr (format_float lib spec r)"
    by (cases btc_change_24h) auto
  from a show "\<exists>score' factors'.
           momentum_factor lib btc_change_24h (score, factors) = Inr (score', factors')
           \<and> (2 < r \<longrightarrow> score' = score + 2)
           \<and> (1 / 2 < r \<and> r \<le> 2 \<longrightarrow> score' = score + 1)
           \<and> (r < - 2 \<longrightarrow> score' = score - 2)
           \<and> (- 2 \<le> r \<and> r < - (1 / 2) \<longrightarrow> score' = score - 1)
           \<and> (- (1 / 2) \<le> r \<and> r \<le> 1 / 2 \<longrightarrow> score' = score)"
    by (simp add: momentum_factor_def bind_def py_gt_def py_lt_def fmt)
qed

theorem momentum_score_witness:
  "momentum_factor example_lib PNone (0, []) = Inr (0, [])
   \<and> momentum_factor example_lib (PFloat (7 / 2)) (0, []) =
       Inr (2, [''BTC strong bullish momentum (+3.50%)''])
   \<and> momentum_factor example_lib (PFloat (- 1)) (0, []) = Inr (- 1, [''BTC bearish (-1.00%)''])"
proof -
  have a: "momentum_factor example_lib (PFloat (7 / 2)) (0, []) =
       Inr (2, [''BTC strong bullish momentum (+3.50%)''])"
    by code_simp
  have b: "momentum_factor example_lib (PFloat (- 1)) (0, []) = Inr (- 1, [''BTC bearish (-1.00%)''])"
    by code_simp
  show ?thesis
    using momentum_score [of example_lib 0 "[]" "PFloat (7 / 2)" "7 / 2"]
      momentum_score [of example_lib 0 "[]" "PFloat (- 1)" "- 1"] a b
    by simp
qed

lemma contains_Nil: "contains [] s"
  by (cases s) simp_all

lemma find_outcome_well_formed:
  "list_all well_formed_leg legs \<Longrightarrow>
   find_outcome w legs = Inr (List.find (outcome_contains w) legs)"
proof (induction legs)
  case Nil
  then show ?case by simp
next
  case (Cons m ms)
  then obtain kvs where m: "m = PDict kvs"
    by (cases m) auto
  from Cons.prems have rest: "find_outcome w ms = Inr (List.find (outcome_contains w) ms)"
    using Cons.IH by simp
  from Cons.prems m show ?case
    by (auto simp: rest contains_Nil split: option.splits pyval.splits)
qed

lemma find_None_iff: "(List.find P xs = None) = (\<not> list_ex P xs)"
  by (induction xs) auto

text \<open>
  Claim C6. Let the legs of the market record be the list \<open>legs\<close> (the empty list
  when the record has no legs). With fewer than two legs, or with two or more
  well-formed legs of which none is labelled up or none is labelled down, the
  prediction engine returns UNKNOWN and LOW with a rationale that names the missing
  data, whatever the price, the 24h change and the volume are: the momentum, crowd and
  volume factors are not evaluated.
\<close>

theorem insufficient_legs_unknown:
  assumes "py_get market ''markets'' (PList []) = Inr (PList legs)"
  shows "(length legs < 2 \<longrightarrow>
            generate_prediction lib btc_price btc_change_24h market =
              Inr (''UNKNOWN'', ''LOW'', ''Insufficient market data''))
         \<and> (2 \<le> length legs \<and> list_all well_formed_leg legs
              \<and> (\<not> list_ex (outcome_contains ''up'') legs
                   \<or> \<not> list_ex (outcome_contains ''down'') legs) \<longrightarrow>
            generate_prediction lib btc_price btc_change_24h market =
              Inr (''UNKNOWN'', ''LOW'', ''Cannot find UP/DOWN outcomes''))"
proof (intro conjI impI)
  assume "length legs < 2"
  then have "generate_prediction_body lib btc_price btc_change_24h market =
      Inr (''UNKNOWN'', ''LOW'', ''Insufficient market data'')"
    using assms by (simp add: generate_prediction_body_def bind_def)
  then show "generate_prediction lib btc_price btc_change_24h market =
      Inr (''UNKNOWN'', ''LOW'', ''Insufficient market data'')"
    by (simp add: generate_prediction_def)
next
  assume a: "2 \<le> length legs \<and> list_all well_formed_leg legs
              \<and> (\<not> list_ex (outcome_contains ''up'') legs
                   \<or> \<not> list_ex (outcome_contains ''down'') legs)"
  then have ne: "legs \<noteq> []" and len: "\<not> length legs < 2"
    by auto
  from a have up: "find_outcome ''up'' legs = Inr (List.find (outcome_contains ''up'') legs)"
    and down: "find_outcome ''down'' legs = Inr (List.find (outcome_contains ''down'') legs)"
    by (simp_all add: find_outcome_well_formed)
  from a have missing: "List.find (outcome_contains ''up'') legs = None
      \<or> List.find (outcome_contains ''down'') legs = None"
    by (simp add: find_None_iff)
  have "generate_prediction_body lib btc_price btc_change_24h market =
      Inr (''UNKNOWN'', ''LOW'', ''Cannot find UP/DOWN outcomes'')"
    using assms ne len missing
    by (auto simp: generate_prediction_body_def bind_def up down split: option.splits)
  then show "generate_prediction lib btc_price btc_change_24h market =
      Inr (''UNKNOWN'', ''LOW'', ''Cannot find UP/DOWN outcomes'')"
    by (simp add: generate_prediction_def)
qed

theorem insufficient_legs_unknown_witness:
  "generate_prediction example_lib (PFloat 65000) (PStr ''n/a'')
     (PDict [(''markets'', PList [PDict [(''outcome'', PStr ''Up'')]])]) =
     Inr (''UNKNOWN'', ''LOW'', ''Insufficient market data'')
   \<and> generate_prediction example_lib (PFloat 65000) (PStr ''n/a'')
     (PDict [(''markets'', PList [PDict [(''outcome'', PStr ''Up'')],
                                 PDict [(''outcome'', PStr ''Yes'')]])]) =
     Inr (''UNKNOWN'', ''LOW'', ''Cannot find UP/DOWN outcomes'')"
proof -
  have g1: "py_get (PDict [(''markets'', PList [PDict [(''outcome'', PStr ''Up'')]])])
              ''markets'' (PList []) = Inr (PList [PDict [(''outcome'', PStr ''Up'')]])"
    by simp
  have g2: "py_get (PDict [(''markets'', PList [PDict [(''outcome'', PStr ''Up'')],
                                 PDict [(''outcome'', PStr ''Yes'')]])])
              ''markets'' (PList []) =
            Inr (PList [PDict [(''outcome'', PStr ''Up'')], PDict [(''outcome'', PStr ''Yes'')]])"
    by simp
  have h: "2 \<le> length [PDict [(''outcome'', PStr ''Up'')], PDict [(''outcome'', PStr ''Yes'')]]
      \<and> list_all well_formed_leg
           [PDict [(''outcome'', PStr ''Up'')], PDict [(''outcome'', PStr ''Yes'')]]
      \<and> \<not> list_ex (outcome_contains ''down'')
           [PDict [(''outcome'', PStr ''Up'')], PDict [(''outcome'', PStr ''Yes'')]]"
    by code_simp
  show ?thesis
    using insufficient_legs_unknown [OF g1, of example_lib "PFloat 65000" "PStr ''n/a''"]
      insufficient_legs_unknown [OF g2, of example_lib "PFloat 65000" "PStr ''n/a''"] h
    by simp
qed

text \<open>
  Claim C9. Given that \<open>float("0.5")\<close> is one half, a leg without the field
  \<open>outcomePrices\<close> has the odds 50 in the prediction engine and in the formatter, and
  so has an absent leg in the formatter.
\<close>

theorem default_odds:
  assumes "float_of_str lib ''0.5'' = Some (1 / 2)"
  shows "(map_of kvs ''outcomePrices'' = None \<longrightarrow>
            leg_odds lib (PDict kvs) = Inr 50 \<and> shown_odds lib (Some (PDict kvs)) = Inr 50)
         \<and> shown_odds lib None = Inr 50"
  using assms
  by (simp add: leg_odds_def bind_def)

theorem default_odds_witness:
  "leg_odds example_lib (PDict [(''outcome'', PStr ''Up'')]) = Inr 50
   \<and> shown_odds example_lib (Some (PDict [(''outcome'', PStr ''Up'')])) = Inr 50
   \<and> shown_odds example_lib None = Inr 50
   \<and> format_float example_lib ''.0f'' 50 = ''50''"
proof -
  have p: "float_of_str example_lib ''0.5'' = Some (1 / 2)"
    by code_simp
  have k: "map_of [(''outcome'', PStr ''Up'')] ''outcomePrices'' = None"
    by simp
  have r: "format_float example_lib ''.0f'' 50 = ''50''"
    by code_simp
  show ?thesis
    using default_odds [OF p, of "[(''outcome'', PStr ''Up'')]"] k r
    by simp
qed

section \<open>Properties of the dispatcher\<close>

text \<open>
  Claim C8. With no endpoint configured (the variable unset or empty) the dispatcher
  returns \<open>False\<close> for every message, and prints the warning and then the whole
  message between two newlines; it raises nothing.
\<close>

theorem no_endpoint_echoes_message:
  assumes "webhook = None \<or> webhook = Some []"
  shows "send_notification lib webhook message =
           (False,
            [warning_sign @ ''  NEBULA_WEBHOOK_URL not set - notification not sent'',
             newline @ message @ newline])"
  using assms
  by (auto simp: send_notification_def)

theorem no_endpoint_echoes_message_witness:
  "send_notification example_lib None ''MARKET'' =
     (False,
      [warning_sign @ ''  NEBULA_WEBHOOK_URL not set - notification not sent'',
       newline @ ''MARKET'' @ newline])
   \<and> send_notification example_lib (Some []) ''MARKET'' =
     (False,
      [warning_sign @ ''  NEBULA_WEBHOOK_URL not set - notification not sent'',
       newline @ ''MARKET'' @ newline])"
  using no_endpoint_echoes_message [of None example_lib "''MARKET''"]
    no_endpoint_echoes_message [of "Some []" example_lib "''MARKET''"]
  by simp

section \<open>The formatter and the poll cycle\<close>

lemma bind_Inr: "(bind m f = Inr y) = (\<exists>v. m = Inr v \<and> f v = Inr y)"
  by (cases m) (simp_all add: bind_def)

lemma generate_prediction_total:
  "\<exists>p c rs. generate_prediction lib btc_price btc_change_24h market = Inr (p, c, rs)"
  by (cases "generate_prediction_body lib btc_price btc_change_24h market")
     (auto simp: generate_prediction_def)

lemma format_unknown_change_never_returns:
  "format_notification lib market btc_price PNone start_time_wib minutes_running \<noteq> Inr text"
  by (simp add: format_notification_def bind_Inr Let_def split: prod.splits)

lemma example_up: "find_outcome ''up'' [up_leg, down_leg] = Inr (Some up_leg)"
  by code_simp

lemma example_down: "find_outcome ''down'' [up_leg, down_leg] = Inr (Some down_leg)"
  by code_simp

lemma malformed_up: "find_outcome ''up'' [malformed_leg, down_leg] = Inr (Some malformed_leg)"
  by code_simp

lemma malformed_down: "find_outcome ''down'' [malformed_leg, down_leg] = Inr (Some down_leg)"
  by code_simp

lemma up_leg_odds: "shown_odds example_lib (Some up_leg) = Inr 75"
  by code_simp

lemma down_leg_odds: "shown_odds example_lib (Some down_leg) = Inr 25"
  by code_simp

lemma malformed_leg_odds:
  "shown_odds example_lib (Some malformed_leg) = Inl (Raise ValueError ''float'' (PStr ''abc''))"
  by code_simp

lemma example_volume: "market_volume example_lib example_market = Inr 1000"
  by code_simp

lemma example_timing:
  "analyze_market_timing example_lib example_now example_market =
     ((True, Some 1704067200000000, Some 1), [])"
  by code_simp

lemma malformed_timing:
  "analyze_market_timing example_lib example_now malformed_market =
     ((True, Some 1704067200000000, Some 1), [])"
  by code_simp

text \<open>
  Claim C3 says that the formatter never raises and replaces an unknown 24h change by
  a placeholder. The formatter raises \<open>TypeError\<close> instead: the field
  \<open>{btc_change_24h:+.2f}\<close> of the message formats \<open>None\<close>, and so does the field
  \<open>{btc_price:,.0f}\<close> before it when the price is \<open>None\<close> as well. The inputs are a
  well-formed market with a known price and the 24h change \<open>None\<close>, and the same
  market with the price and the 24h change \<open>None\<close>, as after a failed fetch.
\<close>

theorem format_raises_on_unknown_change:
  "format_notification example_lib example_market (PFloat 65000) PNone 1704067200000000 1 =
     Inl (Raise TypeError ''format'' PNone)
   \<and> format_notification example_lib example_market PNone PNone 1704067200000000 1 =
     Inl (Raise TypeError ''format'' PNone)"
proof -
  obtain p c rs where
    g: "generate_prediction example_lib (PFloat 65000) PNone example_market = Inr (p, c, rs)"
    using generate_prediction_total by blast
  obtain p' c' rs' where
    g': "generate_prediction example_lib PNone PNone example_market = Inr (p', c', rs')"
    using generate_prediction_total by blast
  have m: "py_get example_market ''markets'' (PList []) = Inr (PList [up_leg, down_leg])"
    and s: "py_get example_market ''slug'' (PStr ''unknown'') = Inr (PStr ''btc-15m-a'')"
    by (simp_all add: example_market_def)
  have known_price:
    "format_notification example_lib example_market (PFloat 65000) PNone 1704067200000000 1 =
       Inl (Raise TypeError ''format'' PNone)"
    by (simp add: format_notification_def bind_def g m s example_up example_down up_leg_odds
          down_leg_odds example_volume btc_emoji_of_def
          del: find_outcome.simps shown_odds.simps)
  have unknown_price:
    "format_notification example_lib example_market PNone PNone 1704067200000000 1 =
       Inl (Raise TypeError ''format'' PNone)"
    by (simp add: format_notification_def bind_def g' m s example_up example_down up_leg_odds
          down_leg_odds example_volume btc_emoji_of_def
          del: find_outcome.simps shown_odds.simps)
  from known_price unknown_price show ?thesis
    by simp
qed

lemma format_malformed:
  "format_notification example_lib malformed_market (PFloat 65000) (PFloat 1)
     1704067200000000 1 = Inl (Raise ValueError ''float'' (PStr ''abc''))"
proof -
  obtain p c rs where
    g: "generate_prediction example_lib (PFloat 65000) (PFloat 1) malformed_market =
          Inr (p, c, rs)"
    using generate_prediction_total by blast
  have m: "py_get malformed_market ''markets'' (PList []) = Inr (PList [malformed_leg, down_leg])"
    and s: "py_get malformed_market ''slug'' (PStr ''unknown'') = Inr (PStr ''btc-15m-b'')"
    by (simp_all add: malformed_market_def)
  show ?thesis
    by (simp add: format_notification_def bind_def g m s malformed_up malformed_down
          malformed_leg_odds
          del: find_outcome.simps shown_odds.simps)
qed

lemma format_example:
  "\<exists>msg. format_notification example_lib example_market (PFloat 65000) (PFloat 1)
     1704067200000000 1 = Inr msg"
proof -
  obtain p c rs where
    g: "generate_prediction example_lib (PFloat 65000) (PFloat 1) example_market =
          Inr (p, c, rs)"
    using generate_prediction_total by blast
  have m: "py_get example_market ''markets'' (PList []) = Inr (PList [up_leg, down_leg])"
    and s: "py_get example_market ''slug'' (PStr ''unknown'') = Inr (PStr ''btc-15m-a'')"
    by (simp_all add: example_market_def)
  show ?thesis
    by (simp add: format_notification_def bind_def g m s example_up example_down up_leg_odds
          down_leg_odds example_volume btc_emoji_of_def py_gt_def
          del: find_outcome.simps shown_odds.simps)
qed


lemma check_malformed:
  "check_market example_lib None (PFloat 65000) (PFloat 1) example_now malformed_market st =
     Inl (Raise ValueError ''float'' (PStr ''abc''))"
proof -
  have s: "py_get malformed_market ''slug'' (PStr ''unknown'') = Inr (PStr ''btc-15m-b'')"
    by (simp add: malformed_market_def)
  show ?thesis
    by (cases st) (simp add: check_market_def malformed_timing s format_malformed bind_def)
qed

lemma check_example:
  "\<exists>st'. check_market example_lib None (PFloat 65000) (PFloat 1) example_now example_market st =
     Inr st'"
proof -
  have s: "py_get example_market ''slug'' (PStr ''unknown'') = Inr (PStr ''btc-15m-a'')"
    by (simp add: example_market_def)
  obtain msg where f: "format_notification example_lib example_market (PFloat 65000) (PFloat 1)
     1704067200000000 1 = Inr msg"
    using format_example by blast
  show ?thesis
    by (cases st) (simp add: check_market_def example_timing s f bind_def)
qed

text \<open>
  Claim C4 says that a failure while one market is processed does not keep the cycle
  from processing the markets after it. The loop has no \<open>try\<close>: with a first market
  whose up price is not a number, the formatter raises \<open>ValueError\<close> and the cycle ends
  with that exception, although the second market is fresh and a cycle over the second
  market alone completes.
\<close>

theorem cycle_stops_at_first_failure:
  "check_for_new_markets example_lib None example_now (\<lambda>i. example_now)
     (PFloat 65000) (PFloat 1) (PList [malformed_market, example_market]) =
     Inl (Raise ValueError ''float'' (PStr ''abc''))
   \<and> fst (fst (analyze_market_timing example_lib example_now example_market))
   \<and> (\<exists>out. check_for_new_markets example_lib None example_now (\<lambda>i. example_now)
         (PFloat 65000) (PFloat 1) (PList [example_market]) = Inr out)"
proof -
  have a: "check_for_new_markets example_lib None example_now (\<lambda>i. example_now)
     (PFloat 65000) (PFloat 1) (PList [malformed_market, example_market]) =
     Inl (Raise ValueError ''float'' (PStr ''abc''))"
    by (simp add: check_for_new_markets_def bind_def check_malformed)
  have b: "fst (fst (analyze_market_timing example_lib example_now example_market))"
    by (simp add: example_timing)
  have c: "\<exists>out. check_for_new_markets example_lib None example_now (\<lambda>i. example_now)
         (PFloat 65000) (PFloat 1) (PList [example_market]) = Inr out"
  proof -
    obtain st' where s: "check_market example_lib None (PFloat 65000) (PFloat 1) example_now
        example_market (0, [newline @ replicate 60 CHR ''='',
                  magnifier @ '' Checking for new markets at '' @ strftime_HMS example_now @ '' WIB'',
                  replicate 60 CHR ''=''] @
                 [money_bag @ '' BTC: $'' @ format_float example_lib '',.2f'' 65000 @ '' ('' @
                    format_float example_lib ''+.2f'' 1 @ ''% 24h)''] @
                 [bar_chart @ '' Found '' @ decimal 1 @ '' active markets'']) = Inr st'"
      using check_example by blast
    show ?thesis
      using s
      by (cases st') (simp add: check_for_new_markets_def bind_def Let_def del: decimal.simps)
  qed
  from a b c show ?thesis
    by blast
qed

end
